theory Spec2Isabelle
  imports Main "HOL-Library.Word"
begin

section \<open>Strings\<close>

text \<open>
  A JavaScript string is a sequence of 16-bit UTF-16 code units, and a regular
  expression without the \<^verbatim>\<open>u\<close> flag matches code unit by code unit. A character
  outside the Basic Multilingual Plane is two code units in \<open>0xD800..0xDFFF\<close>.
\<close>

type_synonym code_unit = "16 word"
type_synonym jsstring = "code_unit list"

text \<open>An ASCII literal of the source, one code unit for each character.\<close>

definition js :: "string \<Rightarrow> jsstring" where
  "js s = map of_char s"

text \<open>An \<^verbatim>\<open>Error\<close> object; only its \<^verbatim>\<open>message\<close> is ever read.\<close>

datatype js_error = Error (message: jsstring)

section \<open>Character classes\<close>

text \<open>
  Every regular expression of \<^verbatim>\<open>index.js\<close> is one character class
  \<^verbatim>\<open>/[...]/\<close> with no flag: a list of ranges \<^verbatim>\<open>lo-hi\<close> and of single characters.
\<close>

datatype class_item = Rng code_unit code_unit | Chr code_unit

fun item_matches :: "class_item \<Rightarrow> code_unit \<Rightarrow> bool" where
  "item_matches (Rng lo hi) c = (lo \<le> c \<and> c \<le> hi)"
| "item_matches (Chr x) c = (c = x)"

fun class_matches :: "class_item list \<Rightarrow> code_unit \<Rightarrow> bool" where
  "class_matches [] c = False"
| "class_matches (i # is) c = (item_matches i c \<or> class_matches is c)"

text \<open>
  \<^verbatim>\<open>/[...]/.test(text)\<close>: the matcher tries each start index from 0 and succeeds
  at the first code unit in the class. The regular expressions carry no
  \<^verbatim>\<open>g\<close> or \<^verbatim>\<open>y\<close> flag, so \<^verbatim>\<open>test\<close> neither reads nor writes \<^verbatim>\<open>lastIndex\<close>.
\<close>

fun test :: "class_item list \<Rightarrow> jsstring \<Rightarrow> bool" where
  "test cls [] = False"
| "test cls (c # cs) = (if class_matches cls c then True else test cls cs)"

section \<open>detectLanguage\<close>

text \<open>\<^verbatim>\<open>/[\u3040-\u309F\u30A0-\u30FF]/\<close>: the Hiragana and the Katakana block.\<close>

definition re_kana :: "class_item list" where
  "re_kana = [Rng 0x3040 0x309F, Rng 0x30A0 0x30FF]"

text \<open>
  The sixteen characters of the Cantonese class, in the order of the source:
  U+4FC2 U+5514 U+4F62 U+5605 U+5187 U+7747 U+5497 U+569F U+55BA U+54CB U+4FFE
  U+8AD7 U+4E5C U+5622 U+5481 U+558E.
\<close>

definition cantonese_markers :: "code_unit list" where
  "cantonese_markers =
     [0x4FC2, 0x5514, 0x4F62, 0x5605, 0x5187, 0x7747, 0x5497, 0x569F,
      0x55BA, 0x54CB, 0x4FFE, 0x8AD7, 0x4E5C, 0x5622, 0x5481, 0x558E]"

definition re_cantonese :: "class_item list" where
  "re_cantonese = map Chr cantonese_markers"

text \<open>\<^verbatim>\<open>/[\u4E00-\u9FFF]/\<close>\<close>

definition re_hanzi :: "class_item list" where
  "re_hanzi = [Rng 0x4E00 0x9FFF]"

text \<open>\<^verbatim>\<open>/[a-zA-Z]/\<close>\<close>

definition re_latin :: "class_item list" where
  "re_latin = [Rng 0x61 0x7A, Rng 0x41 0x5A]"

definition detectLanguage :: "jsstring \<Rightarrow> jsstring" where
  "detectLanguage text =
     (if test re_kana text then js ''ja''
      else if test re_cantonese text then js ''yue''
      else if test re_hanzi text then js ''zh''
      else if test re_latin text then js ''en''
      else js ''neutral'')"

subsection \<open>The classifier as the specification words it\<close>

text \<open>
  The specification describes the detector as an ordered list of (predicate, tag)
  pairs, the first pair whose predicate holds of some character of the text giving
  the tag, and \<^verbatim>\<open>neutral\<close> when none does. The predicates are the Unicode blocks it
  names: Hiragana U+3040..U+309F, Katakana U+30A0..U+30FF, CJK Unified Ideographs
  U+4E00..U+9FFF, the ASCII letters, and the fixed list of Cantonese markers.
\<close>

definition in_hiragana_block :: "code_unit \<Rightarrow> bool" where
  "in_hiragana_block c = (0x3040 \<le> c \<and> c \<le> 0x309F)"

definition in_katakana_block :: "code_unit \<Rightarrow> bool" where
  "in_katakana_block c = (0x30A0 \<le> c \<and> c \<le> 0x30FF)"

definition is_kana :: "code_unit \<Rightarrow> bool" where
  "is_kana c = (in_hiragana_block c \<or> in_katakana_block c)"

definition is_cantonese_marker :: "code_unit \<Rightarrow> bool" where
  "is_cantonese_marker c = (c \<in> set cantonese_markers)"

definition is_han_ideograph :: "code_unit \<Rightarrow> bool" where
  "is_han_ideograph c = (0x4E00 \<le> c \<and> c \<le> 0x9FFF)"

definition is_ascii_letter :: "code_unit \<Rightarrow> bool" where
  "is_ascii_letter c = ((0x41 \<le> c \<and> c \<le> 0x5A) \<or> (0x61 \<le> c \<and> c \<le> 0x7A))"

fun first_match :: "((code_unit \<Rightarrow> bool) \<times> jsstring) list \<Rightarrow> jsstring \<Rightarrow> jsstring" where
  "first_match [] text = js ''neutral''"
| "first_match ((p, tag) # rules) text =
     (if list_ex p text then tag else first_match rules text)"

definition priority_rules :: "((code_unit \<Rightarrow> bool) \<times> jsstring) list" where
  "priority_rules =
     [(is_kana, js ''ja''), (is_cantonese_marker, js ''yue''),
      (is_han_ideograph, js ''zh''), (is_ascii_letter, js ''en'')]"

definition spec_detect :: "jsstring \<Rightarrow> jsstring" where
  "spec_detect text = first_match priority_rules text"


subsection \<open>The function as the engine runs it\<close>

text \<open>
  The same function with everything a call could do made explicit. The heap holds the
  RegExp objects; evaluating a regular expression literal allocates a new one, with no
  flag set and \<^verbatim>\<open>lastIndex\<close> 0. A piece of code completes normally with a value or
  throws, may leave another heap behind, and may fail to return at all (\<open>None\<close>).
\<close>

datatype 'a completion = Normal 'a | Throw js_error

record regexp =
  pattern :: "class_item list"
  global :: bool
  sticky :: bool
  lastIndex :: nat

type_synonym heap = "regexp list"

definition fresh :: "class_item list \<Rightarrow> regexp" where
  "fresh cls = \<lparr>pattern = cls, global = False, sticky = False, lastIndex = 0\<rparr>"


text \<open>
  The matching loop of \<^verbatim>\<open>RegExp.prototype.exec\<close> for a one-character class: from index
  \<open>i\<close>, fail beyond the end of the string, succeed with the end index of the match at a
  code unit of the class, fail at once when sticky, and otherwise try the next index.
\<close>

partial_function (option) match_from ::
    "class_item list \<Rightarrow> bool \<Rightarrow> jsstring \<Rightarrow> nat \<Rightarrow> nat option option" where
  "match_from cls stick s i =
     (if length s < i then Some None
      else if i < length s \<and> class_matches cls (s ! i) then Some (Some (i + 1))
      else if stick then Some None
      else match_from cls stick s (i + 1))"

text \<open>
  \<^verbatim>\<open>test\<close> on the object at address \<open>a\<close>: a TypeError when there is no RegExp object
  there; the search starts at \<^verbatim>\<open>lastIndex\<close> when the object is global or sticky and at 0
  otherwise, and only a global or sticky object has its \<^verbatim>\<open>lastIndex\<close> written.
\<close>

definition regexp_test :: "nat \<Rightarrow> jsstring \<Rightarrow> heap \<Rightarrow> (bool completion \<times> heap) option" where
  "regexp_test a s h =
     (if length h \<le> a then Some (Throw (Error (js ''TypeError: not a RegExp'')), h)
      else
        let r = h ! a;
            start = (if global r \<or> sticky r then lastIndex r else 0)
        in case match_from (pattern r) (sticky r) s start of
             None \<Rightarrow> None
           | Some None \<Rightarrow>
               Some (Normal False,
                     if global r \<or> sticky r then h[a := r\<lparr>lastIndex := 0\<rparr>] else h)
           | Some (Some e) \<Rightarrow>
               Some (Normal True,
                     if global r \<or> sticky r then h[a := r\<lparr>lastIndex := e\<rparr>] else h))"



section \<open>synthesize\<close>

datatype 'a promise = Pending | Fulfilled 'a | Rejected js_error

fun is_fulfilled :: "'a promise \<Rightarrow> bool" where
  "is_fulfilled (Fulfilled v) = True"
| "is_fulfilled p = False"

fun is_rejected :: "'a promise \<Rightarrow> bool" where
  "is_rejected (Rejected e) = True"
| "is_rejected p = False"

text \<open>
  \<^verbatim>\<open>resolve\<close> and \<^verbatim>\<open>reject\<close> settle a pending promise and do nothing to a settled one.
\<close>

fun settle :: "'a promise \<Rightarrow> 'a promise \<Rightarrow> 'a promise" where
  "settle Pending r = r"
| "settle p r = p"

text \<open>
  The options object: a key that is absent (or \<^verbatim>\<open>undefined\<close>) is \<open>None\<close>. The
  destructuring pattern gives such a key its default; \<^verbatim>\<open>{}\<close> has no key at all.
\<close>

record options =
  "output" :: "jsstring option"
  gender :: "jsstring option"
  rate :: "jsstring option"
  pitch :: "jsstring option"
  volume :: "jsstring option"

definition no_options :: options where
  "no_options = \<lparr>output = None, gender = None, rate = None, pitch = None, volume = None\<rparr>"

fun dflt :: "'a option \<Rightarrow> 'a \<Rightarrow> 'a" where
  "dflt None d = d"
| "dflt (Some v) d = v"

text \<open>
  What the child process makes its listeners see, in order: a chunk on its standard
  error stream (already a string, \<^verbatim>\<open>data.toString()\<close>), its \<^verbatim>\<open>close\<close> with the exit
  code (\<^verbatim>\<open>null\<close>, here \<open>None\<close>, when a signal ended it), or an \<^verbatim>\<open>error\<close> when it
  could not be launched.
\<close>

datatype child_event = StderrData jsstring | Close "int option" | SpawnError js_error

text \<open>
  Everything outside the module that \<^verbatim>\<open>synthesize\<close> reads: the path of the Python
  script, \<^verbatim>\<open>os.tmpdir()\<close>, the value \<^verbatim>\<open>crypto.randomUUID()\<close> draws for this call,
  \<^verbatim>\<open>path.join\<close>, the events of the process that \<^verbatim>\<open>spawn\<close> starts for a command and
  its arguments, and the file system as \<^verbatim>\<open>existsSync\<close> finds it when the \<^verbatim>\<open>close\<close>
  listener runs.
\<close>

record world =
  PYTHON_SCRIPT :: jsstring
  tmpdir :: jsstring
  randomUUID :: jsstring
  join :: "jsstring \<Rightarrow> jsstring \<Rightarrow> jsstring"
  spawn :: "jsstring \<Rightarrow> jsstring list \<Rightarrow> child_event list"
  existsSync :: "jsstring \<Rightarrow> bool"

text \<open>A template literal prints an integer in decimal and \<^verbatim>\<open>null\<close> as "null".\<close>

fun digits :: "nat \<Rightarrow> jsstring" where
  "digits n = (if n < 10 then [0x30 + of_nat n]
               else digits (n div 10) @ [0x30 + of_nat (n mod 10)])"

declare digits.simps [simp del]

definition number_to_string :: "int \<Rightarrow> jsstring" where
  "number_to_string i = (if i < 0 then js ''-'' @ digits (nat (- i)) else digits (nat i))"

fun code_to_string :: "int option \<Rightarrow> jsstring" where
  "code_to_string None = js ''null''"
| "code_to_string (Some i) = number_to_string i"

text \<open>The five constants of the destructuring pattern.\<close>

definition output_of :: "world \<Rightarrow> options \<Rightarrow> jsstring" where
  "output_of w opts =
     dflt (output opts) (join w (tmpdir w) (js ''tts-'' @ randomUUID w @ js ''.mp3''))"

definition gender_of :: "options \<Rightarrow> jsstring" where
  "gender_of opts = dflt (gender opts) (js ''female'')"

definition rate_of :: "options \<Rightarrow> jsstring" where
  "rate_of opts = dflt (rate opts) (js ''+0%'')"

definition pitch_of :: "options \<Rightarrow> jsstring" where
  "pitch_of opts = dflt (pitch opts) (js ''+0Hz'')"

definition volume_of :: "options \<Rightarrow> jsstring" where
  "volume_of opts = dflt (volume opts) (js ''+0%'')"

definition spawn_args :: "world \<Rightarrow> jsstring \<Rightarrow> options \<Rightarrow> jsstring list" where
  "spawn_args w text opts =
     [PYTHON_SCRIPT w, text,
      js ''-o'', output_of w opts,
      js ''-g'', gender_of opts,
      js ''-r'', rate_of opts,
      js ''-p'', pitch_of opts,
      js ''-v'', volume_of opts]"

text \<open>
  The three listeners, run on one event. The state is the \<^verbatim>\<open>stderr\<close> variable and
  the promise.
\<close>

fun on_event :: "world \<Rightarrow> jsstring \<Rightarrow> jsstring \<times> jsstring promise \<Rightarrow> child_event
    \<Rightarrow> jsstring \<times> jsstring promise" where
  "on_event w out (stderr, p) (StderrData d) = (stderr @ d, p)"
| "on_event w out (stderr, p) (Close code) =
     (stderr,
      settle p
        (if code = Some 0 \<and> existsSync w out then Fulfilled out
         else Rejected (Error (js ''TTS failed (code '' @ code_to_string code @ js ''): '' @ stderr))))"
| "on_event w out (stderr, p) (SpawnError e) = (stderr, settle p (Rejected e))"

definition synthesize :: "world \<Rightarrow> jsstring \<Rightarrow> options \<Rightarrow> jsstring promise" where
  "synthesize w text opts =
     snd (foldl (on_event w (output_of w opts)) ([], Pending)
            (spawn w (js ''python3'') (spawn_args w text opts)))"

section \<open>The command line\<close>

definition "includes" :: "jsstring list \<Rightarrow> jsstring \<Rightarrow> bool" where
  "includes xs x = (x \<in> set xs)"

definition startsWith :: "jsstring \<Rightarrow> jsstring \<Rightarrow> bool" where
  "startsWith s p = (take (length p) s = p)"

fun join_with :: "jsstring \<Rightarrow> jsstring list \<Rightarrow> jsstring" where
  "join_with sep [] = []"
| "join_with sep [x] = x"
| "join_with sep (x # y # ys) = x @ sep @ join_with sep (y # ys)"

text \<open>
  The sample of \<^verbatim>\<open>--test\<close>: ten characters U+54C8 U+56C9 U+FF01 U+9019 U+662F U+6E2C
  U+8A66 U+8A9E U+97F3 U+3002, then "Hello world!".
\<close>

definition test_sample :: jsstring where
  "test_sample =
     [0x54C8, 0x56C9, 0xFF01, 0x9019, 0x662F, 0x6E2C, 0x8A66, 0x8A9E, 0x97F3, 0x3002]
     @ js ''Hello world!''"

definition cli_text :: "jsstring list \<Rightarrow> jsstring" where
  "cli_text args = join_with (js '' '') (filter (\<lambda>a. \<not> startsWith a (js ''-'')) args)"

definition cli_gender :: "jsstring list \<Rightarrow> jsstring" where
  "cli_gender args =
     (if includes args (js ''-m'') \<or> includes args (js ''--male'') then js ''male''
      else js ''female'')"

text \<open>The two lines of the usage help.\<close>

definition usage :: "jsstring list" where
  \<open>usage = [js ''Usage: smart-tts "text to speak" [-m|--male]'',
            js ''       smart-tts --test'']\<close>

text \<open>
  One run of the program, that is of the block guarded by \<^verbatim>\<open>process.argv[1] === ...\<close>,
  on \<^verbatim>\<open>args = process.argv.slice(2)\<close>: the lines of \<^verbatim>\<open>console.log\<close> and of \<^verbatim>\<open>console.error\<close>, the
  calls of \<^verbatim>\<open>synthesize\<close> it made, and its exit code. Node exits with 0 once nothing
  is left to do unless \<^verbatim>\<open>process.exit\<close> said otherwise; while the child runs and the
  promise is pending the program has not exited (\<open>None\<close>).
\<close>

record run =
  stdout :: "jsstring list"
  stderr :: "jsstring list"
  calls :: "(jsstring \<times> options) list"
  exit_code :: "int option"

definition cli :: "world \<Rightarrow> jsstring list \<Rightarrow> run" where
  "cli w args =
     (if includes args (js ''--test'') then
        (case synthesize w test_sample no_options of
           Fulfilled path \<Rightarrow>
             \<lparr>stdout = [js ''Testing Smart TTS...'', js ''Generated: '' @ path], stderr = [],
              calls = [(test_sample, no_options)], exit_code = Some 0\<rparr>
         | Rejected err \<Rightarrow>
             \<lparr>stdout = [js ''Testing Smart TTS...''], stderr = [js ''Error: '' @ message err],
              calls = [(test_sample, no_options)], exit_code = Some 0\<rparr>
         | Pending \<Rightarrow>
             \<lparr>stdout = [js ''Testing Smart TTS...''], stderr = [],
              calls = [(test_sample, no_options)], exit_code = None\<rparr>)
      else if length args > 0 then
        (let text = cli_text args;
             opts = no_options\<lparr>gender := Some (cli_gender args)\<rparr>
         in case synthesize w text opts of
              Fulfilled path \<Rightarrow>
                \<lparr>stdout = [path], stderr = [], calls = [(text, opts)], exit_code = Some 0\<rparr>
            | Rejected err \<Rightarrow>
                \<lparr>stdout = [], stderr = [message err], calls = [(text, opts)], exit_code = Some 1\<rparr>
            | Pending \<Rightarrow>
                \<lparr>stdout = [], stderr = [], calls = [(text, opts)], exit_code = None\<rparr>)
      else
        \<lparr>stdout = usage,
         stderr = [], calls = [], exit_code = Some 0\<rparr>)"

subsection \<open>Backend stubs\<close>

text \<open>
  A world whose backend emits the given events whatever its arguments, and in which
  exactly the paths of \<open>files\<close> exist when the process closes.
\<close>

definition stub_world :: "child_event list \<Rightarrow> jsstring list \<Rightarrow> world" where
  "stub_world evs files =
     \<lparr>PYTHON_SCRIPT = js ''/opt/smart-tts/tts.py'', tmpdir = js ''/tmp'',
      randomUUID = js ''0b5c1f0e-0000-4000-8000-000000000001'',
      join = (\<lambda>a b. a @ js ''/'' @ b),
      spawn = (\<lambda>cmd args. evs),
      existsSync = (\<lambda>p. p \<in> set files)\<rparr>"

text \<open>
  The characters of a UUID as \<^verbatim>\<open>randomUUID\<close> prints it: digits, the letters a to f and
  the hyphen.
\<close>

definition is_uuid_char :: "code_unit \<Rightarrow> bool" where
  "is_uuid_char c = ((0x30 \<le> c \<and> c \<le> 0x39) \<or> (0x61 \<le> c \<and> c \<le> 0x66) \<or> c = 0x2D)"

text \<open>
  A \<^verbatim>\<open>join\<close> that normalises as \<^verbatim>\<open>path.join\<close> does on POSIX: the two parts are put
  together with a slash, empty and "." segments are dropped, ".." removes the segment
  before it, and a leading and a trailing slash are kept. It sends "a" and "./a" to the
  same path.
\<close>

fun split_path :: "jsstring \<Rightarrow> jsstring list" where
  "split_path [] = [[]]"
| "split_path (c # cs) =
     (if c = 0x2F then [] # split_path cs
      else (case split_path cs of [] \<Rightarrow> [[c]] | p # ps \<Rightarrow> (c # p) # ps))"

definition norm_step :: "bool \<Rightarrow> jsstring list \<Rightarrow> jsstring \<Rightarrow> jsstring list" where
  "norm_step allow_up st c =
     (if c = [] \<or> c = js ''.'' then st
      else if c = js ''..'' then
        (if st \<noteq> [] \<and> last st \<noteq> js ''..'' then butlast st
         else if allow_up then st @ [js ''..''] else st)
      else st @ [c])"

definition normalize_path :: "jsstring \<Rightarrow> jsstring" where
  "normalize_path p =
     (let absolute = (p \<noteq> [] \<and> hd p = 0x2F);
          trailing = (p \<noteq> [] \<and> last p = 0x2F);
          path = join_with (js ''/'') (foldl (norm_step (\<not> absolute)) [] (split_path p))
      in if p = [] then js ''.''
         else if path = [] then (if absolute then js ''/'' else if trailing then js ''./'' else js ''.'')
         else (if absolute then js ''/'' else []) @ path @ (if trailing then js ''/'' else []))"

definition posix_join :: "jsstring \<Rightarrow> jsstring \<Rightarrow> jsstring" where
  "posix_join a b =
     normalize_path (if a = [] then b else if b = [] then a else a @ js ''/'' @ b)"

text \<open>
  A world with the normalising \<^verbatim>\<open>join\<close> whose backend looks at its arguments: asked for
  the male voice it writes its whole command line to standard error and exits with
  code 1, otherwise it exits with code 0; the default output path exists.
\<close>

definition echo_world :: world where
  "echo_world =
     \<lparr>PYTHON_SCRIPT = js ''/opt/smart-tts/tts.py'', tmpdir = js ''/tmp'',
      randomUUID = js ''0b5c1f0e-0000-4000-8000-000000000001'',
      join = posix_join,
      spawn = (\<lambda>cmd args.
         if args ! 5 = js ''male'' then [StderrData (join_with (js '' '') (cmd # args)), Close (Some 1)]
         else [Close (Some 0)]),
      existsSync = (\<lambda>p. p = js ''/tmp/tts-0b5c1f0e-0000-4000-8000-000000000001.mp3'')\<rparr>"

section \<open>Properties of detectLanguage\<close>

subsection \<open>The regular expressions and the predicates of the specification\<close>

lemma class_matches_Chr: "class_matches (map Chr xs) c = (c \<in> set xs)"
  by (induction xs) auto

lemma class_kana: "class_matches re_kana c = is_kana c"
  by (simp add: re_kana_def is_kana_def in_hiragana_block_def in_katakana_block_def)

lemma class_cantonese: "class_matches re_cantonese c = is_cantonese_marker c"
  by (simp add: re_cantonese_def is_cantonese_marker_def class_matches_Chr)

lemma class_hanzi: "class_matches re_hanzi c = is_han_ideograph c"
  by (simp add: re_hanzi_def is_han_ideograph_def)

lemma class_latin: "class_matches re_latin c = is_ascii_letter c"
  by (auto simp add: re_latin_def is_ascii_letter_def)

lemma test_kana: "test re_kana text = list_ex is_kana text"
  by (induction "text") (simp_all add: class_kana)

lemma test_cantonese: "test re_cantonese text = list_ex is_cantonese_marker text"
  by (induction "text") (simp_all add: class_cantonese)

lemma test_hanzi: "test re_hanzi text = list_ex is_han_ideograph text"
  by (induction "text") (simp_all add: class_hanzi)

lemma test_latin: "test re_latin text = list_ex is_ascii_letter text"
  by (induction "text") (simp_all add: class_latin)

lemma is_kana_range: "is_kana c = (0x3040 \<le> c \<and> c \<le> 0x30FF)"
  by (auto simp add: is_kana_def in_hiragana_block_def in_katakana_block_def word_le_nat_alt)

text \<open>Each of the sixteen Cantonese markers is itself a CJK Unified Ideograph.\<close>

lemma cantonese_in_han: "is_cantonese_marker c \<Longrightarrow> is_han_ideograph c"
  by (auto simp add: is_cantonese_marker_def cantonese_markers_def is_han_ideograph_def)

subsection \<open>Classification\<close>

text \<open>
  C2. \<^verbatim>\<open>detectLanguage\<close> is the ordered first-match-wins classifier of the
  specification: kana gives "ja", else a Cantonese marker gives "yue", else a Han
  ideograph gives "zh", else an ASCII letter gives "en", else "neutral"; this holds
  for every string, and the empty string gives "neutral". A character is kana when it
  lies in the Hiragana or the Katakana block, and a Han ideograph when it lies in the
  CJK Unified Ideographs block, as the specification defines them.
\<close>

theorem detectLanguage_first_match:
  "detectLanguage text = spec_detect text \<and> detectLanguage [] = js ''neutral''"
  by (simp add: detectLanguage_def spec_detect_def priority_rules_def
      test_kana test_cantonese test_hanzi test_latin)

text \<open>
  C3. A text with at least one character of the Hiragana or of the Katakana block is
  classified "ja", whatever else it contains.
\<close>

theorem kana_forces_ja:
  "c \<in> set text \<Longrightarrow> in_hiragana_block c \<or> in_katakana_block c \<Longrightarrow>
   detectLanguage text = js ''ja''"
  by (auto simp add: detectLanguage_def test_kana list_ex_iff is_kana_def)

text \<open>
  One hiragana letter (U+3042) inside English text that also holds two Han ideographs
  and a Cantonese marker.
\<close>

theorem kana_forces_ja_witness:
  "detectLanguage (js ''Hello '' @ [0x3042] @ js '' world '' @ [0x4E16, 0x754C, 0x4FC2])
   = js ''ja''"
  using kana_forces_ja [of "0x3042"
      "js ''Hello '' @ [0x3042] @ js '' world '' @ [0x4E16, 0x754C, 0x4FC2]"]
  by (simp add: in_hiragana_block_def)





text \<open>
  The model of \<^verbatim>\<open>test\<close> does throw at an address that holds no object, and does write
  the \<^verbatim>\<open>lastIndex\<close> of a global object.
\<close>

lemma regexp_test_throws:
  "regexp_test 0 text [] = Some (Throw (Error (js ''TypeError: not a RegExp'')), [])"
  by (simp add: regexp_test_def)

lemma regexp_test_writes:
  "regexp_test 0 (js ''a'') [(fresh re_latin)\<lparr>global := True\<rparr>]
     = Some (Normal True, [(fresh re_latin)\<lparr>global := True, lastIndex := 1\<rparr>])"
proof -
  have "match_from re_latin False (js ''a'') 0 = Some (Some 1)"
    by (subst match_from.simps) (simp add: re_latin_def js_def)
  then show ?thesis by (simp add: regexp_test_def fresh_def)
qed


lemma not_tested_neutral:
  "\<forall>c\<in>set text. \<not> is_kana c \<and> \<not> is_han_ideograph c \<and> \<not> is_ascii_letter c \<Longrightarrow>
   detectLanguage text = js ''neutral''"
  using cantonese_in_han
  by (auto simp add: detectLanguage_def test_kana test_cantonese test_hanzi test_latin
      list_ex_iff)

lemma extension_a_untested:
  fixes c :: code_unit
  assumes "0x3400 \<le> c" "c \<le> 0x4DBF"
  shows "\<not> is_kana c \<and> \<not> is_han_ideograph c \<and> \<not> is_ascii_letter c"
  using assms
  by (simp add: is_kana_def in_hiragana_block_def in_katakana_block_def is_han_ideograph_def
      is_ascii_letter_def word_le_nat_alt)

lemma halfwidth_untested:
  fixes c :: code_unit
  assumes "0xFF65 \<le> c" "c \<le> 0xFF9F"
  shows "\<not> is_kana c \<and> \<not> is_han_ideograph c \<and> \<not> is_ascii_letter c"
  using assms
  by (simp add: is_kana_def in_hiragana_block_def in_katakana_block_def is_han_ideograph_def
      is_ascii_letter_def word_le_nat_alt)

lemma zh_needs_han: "detectLanguage text = js ''zh'' \<Longrightarrow> list_ex is_han_ideograph text"
  by (simp add: detectLanguage_def test_hanzi js_def split: if_splits)

lemma ja_needs_kana: "detectLanguage text = js ''ja'' \<Longrightarrow> list_ex is_kana text"
  by (simp add: detectLanguage_def test_kana js_def split: if_splits)

text \<open>
  C8. Han ideographs are recognised only in U+4E00..U+9FFF and kana only in
  U+3040..U+30FF: a text all of whose code units lie outside every tested class is
  "neutral", in particular a text of CJK Extension A ideographs (U+3400..U+4DBF) only
  and a text of halfwidth katakana (U+FF65..U+FF9F) only; and a result "zh" or "ja"
  needs a code unit inside the respective range.
\<close>

theorem detect_only_tested_ranges:
  "((\<forall>c\<in>set text. \<not> is_kana c \<and> \<not> is_cantonese_marker c \<and> \<not> is_han_ideograph c
        \<and> \<not> is_ascii_letter c)
      \<longrightarrow> detectLanguage text = js ''neutral'')
   \<and> ((\<forall>c\<in>set text. 0x3400 \<le> c \<and> c \<le> 0x4DBF) \<longrightarrow> detectLanguage text = js ''neutral'')
   \<and> ((\<forall>c\<in>set text. 0xFF65 \<le> c \<and> c \<le> 0xFF9F) \<longrightarrow> detectLanguage text = js ''neutral'')
   \<and> (detectLanguage text = js ''zh'' \<longrightarrow> (\<exists>c\<in>set text. 0x4E00 \<le> c \<and> c \<le> 0x9FFF))
   \<and> (detectLanguage text = js ''ja'' \<longrightarrow> (\<exists>c\<in>set text. 0x3040 \<le> c \<and> c \<le> 0x30FF))"
proof (intro conjI impI)
  assume "\<forall>c\<in>set text. \<not> is_kana c \<and> \<not> is_cantonese_marker c \<and> \<not> is_han_ideograph c
      \<and> \<not> is_ascii_letter c"
  then show "detectLanguage text = js ''neutral''"
    by (intro not_tested_neutral) blast
next
  assume "\<forall>c\<in>set text. 0x3400 \<le> c \<and> c \<le> 0x4DBF"
  then show "detectLanguage text = js ''neutral''"
    by (intro not_tested_neutral ballI extension_a_untested) blast+
next
  assume "\<forall>c\<in>set text. 0xFF65 \<le> c \<and> c \<le> 0xFF9F"
  then show "detectLanguage text = js ''neutral''"
    by (intro not_tested_neutral ballI halfwidth_untested) blast+
next
  assume "detectLanguage text = js ''zh''"
  then show "\<exists>c\<in>set text. 0x4E00 \<le> c \<and> c \<le> 0x9FFF"
    using zh_needs_han [of "text"] by (simp add: list_ex_iff is_han_ideograph_def)
next
  assume "detectLanguage text = js ''ja''"
  then show "\<exists>c\<in>set text. 0x3040 \<le> c \<and> c \<le> 0x30FF"
    using ja_needs_kana [of "text"] by (simp add: list_ex_iff is_kana_range)
qed

text \<open>
  Two Extension A ideographs; two halfwidth katakana; a digit, an Extension A
  ideograph, a halfwidth middle dot and a space; and, for the last two parts, a text
  classified "zh" and one classified "ja".
\<close>

theorem detect_only_tested_ranges_witness:
  "detectLanguage [0x3400, 0x4DBF] = js ''neutral''
   \<and> detectLanguage [0xFF71, 0xFF9F] = js ''neutral''
   \<and> detectLanguage [0x31, 0x3400, 0xFF65, 0x20] = js ''neutral''
   \<and> detectLanguage [0x61, 0x4E2D] = js ''zh''
   \<and> (\<exists>c\<in>set [0x61, 0x4E2D :: code_unit]. 0x4E00 \<le> c \<and> c \<le> 0x9FFF)
   \<and> detectLanguage [0x4E2D, 0x30A2] = js ''ja''
   \<and> (\<exists>c\<in>set [0x4E2D, 0x30A2 :: code_unit]. 0x3040 \<le> c \<and> c \<le> 0x30FF)"
  using detect_only_tested_ranges [of "[0x3400, 0x4DBF]"]
    detect_only_tested_ranges [of "[0xFF71, 0xFF9F]"]
    detect_only_tested_ranges [of "[0x31, 0x3400, 0xFF65, 0x20]"]
    detect_only_tested_ranges [of "[0x61, 0x4E2D]"]
    detect_only_tested_ranges [of "[0x4E2D, 0x30A2]"]
  by (simp add: is_kana_def in_hiragana_block_def in_katakana_block_def is_han_ideograph_def
      is_ascii_letter_def is_cantonese_marker_def cantonese_markers_def
      detectLanguage_def re_kana_def re_cantonese_def re_hanzi_def re_latin_def js_def)

section \<open>Properties of synthesize\<close>

lemma foldl_stderr_data:
  "foldl (on_event w out) (err, p) (map StderrData chunks) = (err @ concat chunks, p)"
  by (induction chunks arbitrary: err) simp_all

lemma settle_settled: "p \<noteq> Pending \<Longrightarrow> settle p r = p"
  by (cases p) simp_all

lemma on_event_settled: "p \<noteq> Pending \<Longrightarrow> snd (on_event w out (err, p) ev) = p"
  by (cases ev) (simp_all add: settle_settled)

text \<open>Once the promise is settled no later event changes it.\<close>

lemma foldl_settled:
  "p \<noteq> Pending \<Longrightarrow> snd (foldl (on_event w out) (err, p) evs) = p"
proof (induction evs arbitrary: err)
  case Nil
  then show ?case by simp
next
  case (Cons ev evs)
  obtain err' p' where step: "on_event w out (err, p) ev = (err', p')"
    by (cases "on_event w out (err, p) ev")
  with on_event_settled [OF Cons.prems, of w out err ev] have "p' = p" by simp
  with step Cons show ?case by simp
qed

text \<open>
  Whatever the events are, the promise is fulfilled only by a \<^verbatim>\<open>close\<close> with code 0 that
  nothing but chunks precede, and only with the output path, which then exists.
\<close>

lemma foldl_fulfilled_only_if:
  "snd (foldl (on_event w out) (err, Pending) evs) = Fulfilled v \<Longrightarrow>
   (\<exists>chunks rest. evs = map StderrData chunks @ Close (Some 0) # rest)
   \<and> existsSync w out \<and> v = out"
proof (induction evs arbitrary: err)
  case Nil
  then show ?case by simp
next
  case (Cons ev evs)
  show ?case
  proof (cases ev)
    case (StderrData d)
    with Cons.prems have "snd (foldl (on_event w out) (err @ d, Pending) evs) = Fulfilled v"
      by simp
    from Cons.IH [OF this] obtain chunks rest
      where "evs = map StderrData chunks @ Close (Some 0) # rest"
        and ok: "existsSync w out \<and> v = out"
      by blast
    with StderrData have "ev # evs = map StderrData (d # chunks) @ Close (Some 0) # rest"
      by simp
    with ok show ?thesis by blast
  next
    case (Close code)
    let ?r = "if code = Some 0 \<and> existsSync w out then Fulfilled out
         else Rejected (Error (js ''TTS failed (code '' @ code_to_string code @ js ''): '' @ err))"
    have "?r \<noteq> Pending" by simp
    from foldl_settled [OF this, of w out err evs] Close Cons.prems
    have r: "?r = Fulfilled v" by simp
    then have "code = Some 0 \<and> existsSync w out \<and> v = out"
      by (simp split: if_splits)
    with Close have "ev # evs = map StderrData [] @ Close (Some 0) # evs" by simp
    with \<open>code = Some 0 \<and> existsSync w out \<and> v = out\<close> show ?thesis by blast
  next
    case (SpawnError e)
    from foldl_settled [of "Rejected e" w out err evs] SpawnError Cons.prems
    show ?thesis by simp
  qed
qed

text \<open>
  A process that was launched writes its chunks and then closes with a code; what
  \<^verbatim>\<open>synthesize\<close> returns is decided at that \<^verbatim>\<open>close\<close>.
\<close>

lemma synthesize_closed:
  assumes "spawn w (js ''python3'') (spawn_args w text opts)
             = map StderrData chunks @ Close code # rest"
  shows "synthesize w text opts =
     (if code = Some 0 \<and> existsSync w (output_of w opts) then Fulfilled (output_of w opts)
      else Rejected (Error (js ''TTS failed (code '' @ code_to_string code @ js ''): ''
                            @ concat chunks)))"
proof -
  let ?out = "output_of w opts"
  let ?r = "if code = Some 0 \<and> existsSync w ?out then Fulfilled ?out
      else Rejected (Error (js ''TTS failed (code '' @ code_to_string code @ js ''): ''
                            @ concat chunks))"
  have r: "?r \<noteq> Pending" by simp
  have "foldl (on_event w ?out) ([], Pending) (map StderrData chunks @ Close code # rest)
      = foldl (on_event w ?out) (concat chunks, ?r) rest"
    by (simp add: foldl_stderr_data)
  then have "snd (foldl (on_event w ?out) ([], Pending)
                   (map StderrData chunks @ Close code # rest)) = ?r"
    using foldl_settled [OF r, of w ?out "concat chunks" rest] by simp
  with assms show ?thesis by (simp add: synthesize_def)
qed

text \<open>A process that could not be launched rejects the promise with the launch error.\<close>

lemma synthesize_launch_failure:
  assumes "spawn w (js ''python3'') (spawn_args w text opts) = SpawnError e # rest"
  shows "synthesize w text opts = Rejected e"
  using assms foldl_settled [of "Rejected e" w "output_of w opts" "[]" rest]
  by (simp add: synthesize_def)

lemma digits_one_digit: "n < 10 \<Longrightarrow> digits n = [0x30 + of_nat n]"
  by (simp add: digits.simps)

text \<open>
  C1. \<^verbatim>\<open>synthesize\<close> resolves only if the external process exits with code zero and the
  resolved output path exists when the process closes, and it resolves with that path.
  When the process exits, this is an equivalence: the call resolves if the exit code
  is zero and the path exists, and in every other case (a non-zero exit, or exit zero
  with the file absent) it rejects.
\<close>

theorem synthesize_resolves_iff:
  "(synthesize w text opts = Fulfilled v \<longrightarrow>
      (\<exists>cs r. spawn w (js ''python3'') (spawn_args w text opts)
                 = map StderrData cs @ Close (Some 0) # r)
      \<and> existsSync w (output_of w opts) \<and> v = output_of w opts)
   \<and> (spawn w (js ''python3'') (spawn_args w text opts)
         = map StderrData chunks @ Close code # rest \<longrightarrow>
       is_fulfilled (synthesize w text opts)
         = (code = Some 0 \<and> existsSync w (output_of w opts))
       \<and> is_rejected (synthesize w text opts)
         = (\<not> (code = Some 0 \<and> existsSync w (output_of w opts)))
       \<and> (is_fulfilled (synthesize w text opts)
            \<longrightarrow> synthesize w text opts = Fulfilled (output_of w opts)))"
proof (intro conjI impI)
  assume "synthesize w text opts = Fulfilled v"
  then have "snd (foldl (on_event w (output_of w opts)) ([], Pending)
                    (spawn w (js ''python3'') (spawn_args w text opts))) = Fulfilled v"
    by (simp add: synthesize_def)
  from foldl_fulfilled_only_if [OF this]
  show "\<exists>cs r. spawn w (js ''python3'') (spawn_args w text opts)
                 = map StderrData cs @ Close (Some 0) # r"
    and "existsSync w (output_of w opts)" and "v = output_of w opts"
    by blast+
next
  assume closed: "spawn w (js ''python3'') (spawn_args w text opts)
                    = map StderrData chunks @ Close code # rest"
  from synthesize_closed [OF closed]
  show "is_fulfilled (synthesize w text opts)
          = (code = Some 0 \<and> existsSync w (output_of w opts))"
    and "is_rejected (synthesize w text opts)
          = (\<not> (code = Some 0 \<and> existsSync w (output_of w opts)))"
    by simp_all
  assume "is_fulfilled (synthesize w text opts)"
  with synthesize_closed [OF closed]
  show "synthesize w text opts = Fulfilled (output_of w opts)"
    by (simp split: if_splits)
qed

text \<open>
  The three stubs of the specification: exit 0 with the file written, exit 0 with no
  file, and exit 1 with a diagnostic.
\<close>

theorem synthesize_resolves_iff_witness:
  "synthesize (stub_world [Close (Some 0)] [js ''/tmp/a.mp3''])
       (js ''hello'') (no_options\<lparr>output := Some (js ''/tmp/a.mp3'')\<rparr>)
     = Fulfilled (js ''/tmp/a.mp3'')
   \<and> existsSync (stub_world [Close (Some 0)] [js ''/tmp/a.mp3''])
       (output_of (stub_world [Close (Some 0)] [js ''/tmp/a.mp3''])
          (no_options\<lparr>output := Some (js ''/tmp/a.mp3'')\<rparr>))
   \<and> is_rejected (synthesize (stub_world [Close (Some 0)] [])
       (js ''hello'') (no_options\<lparr>output := Some (js ''/tmp/a.mp3'')\<rparr>))
   \<and> is_rejected (synthesize
       (stub_world [StderrData (js ''voice not found''), Close (Some 1)] [js ''/tmp/a.mp3''])
       (js ''hello'') (no_options\<lparr>output := Some (js ''/tmp/a.mp3'')\<rparr>))"
  using synthesize_resolves_iff [of "stub_world [Close (Some 0)] [js ''/tmp/a.mp3'']"
      "js ''hello''" "no_options\<lparr>output := Some (js ''/tmp/a.mp3'')\<rparr>" "js ''/tmp/a.mp3''"
      "[]" "Some 0" "[]"]
    synthesize_resolves_iff [of "stub_world [Close (Some 0)] []"
      "js ''hello''" "no_options\<lparr>output := Some (js ''/tmp/a.mp3'')\<rparr>" "js ''/tmp/a.mp3''"
      "[]" "Some 0" "[]"]
    synthesize_resolves_iff [of
      "stub_world [StderrData (js ''voice not found''), Close (Some 1)] [js ''/tmp/a.mp3'']"
      "js ''hello''" "no_options\<lparr>output := Some (js ''/tmp/a.mp3'')\<rparr>" "js ''/tmp/a.mp3''"
      "[js ''voice not found'']" "Some 1" "[]"]
  by (simp add: stub_world_def output_of_def no_options_def)



text \<open>
  On a file name "tts-", a UUID, ".mp3" the normalising join only puts the directory
  in front.
\<close>

lemma split_path_no_slash: "0x2F \<notin> set n \<Longrightarrow> split_path n = [n]"
  by (induction n) auto

lemma split_path_nonempty: "split_path t \<noteq> []"
  by (induction t) (auto split: list.splits)

lemma split_path_append:
  "0x2F \<notin> set n \<Longrightarrow> split_path (t @ 0x2F # n) = split_path t @ [n]"
proof (induction t)
  case Nil
  then show ?case by (simp add: split_path_no_slash)
next
  case (Cons c t)
  with split_path_nonempty [of t] show ?case by (cases "split_path t") auto
qed

lemma uuid_no_slash: "list_all is_uuid_char u \<Longrightarrow> 0x2F \<notin> set u"
  by (auto simp add: list_all_iff is_uuid_char_def)

lemma posix_join_tmp:
  assumes "list_all is_uuid_char u"
  shows "posix_join (js ''/tmp'') (js ''tts-'' @ u @ js ''.mp3'')
         = js ''/tmp/tts-'' @ u @ js ''.mp3''"
proof -
  define n where "n = js ''tts-'' @ u @ js ''.mp3''"
  define p where "p = js ''/tmp'' @ 0x2F # n"
  from uuid_no_slash [OF assms] have ns: "0x2F \<notin> set n" by (simp add: n_def js_def)
  have n_plain: "n \<noteq> []" "n \<noteq> js ''.''" "n \<noteq> js ''..''"
    by (simp_all add: n_def js_def)
  have "split_path (js ''/tmp'') = [[], js ''tmp'']" by (simp add: js_def)
  with split_path_append [OF ns, of "js ''/tmp''"]
  have sp: "split_path p = [[], js ''tmp'', n]" by (simp add: p_def)
  have tmp_plain: "js ''tmp'' \<noteq> js ''.''" "js ''tmp'' \<noteq> js ''..''" "js ''tmp'' \<noteq> []"
    by (simp_all add: js_def)
  have parts: "foldl (norm_step False) [] (split_path p) = [js ''tmp'', n]"
    using n_plain tmp_plain by (simp add: sp norm_step_def)
  have path: "join_with (js ''/'') (foldl (norm_step False) [] (split_path p))
              = js ''tmp/'' @ n"
    by (simp add: parts js_def)
  have shape: "p \<noteq> []" "hd p = 0x2F" "last p \<noteq> 0x2F"
    by (simp_all add: p_def n_def js_def)
  have "posix_join (js ''/tmp'') n = normalize_path p"
    using n_plain by (simp add: posix_join_def p_def js_def)
  also have "\<dots> = js ''/'' @ js ''tmp/'' @ n"
    using shape n_plain by (simp add: normalize_path_def Let_def path)
  finally show ?thesis by (simp add: n_def js_def)
qed

lemma dflt_case: "dflt x d = (case x of None \<Rightarrow> d | Some v \<Rightarrow> v)"
  by (cases x) simp_all

text \<open>
  C5. Each option key that is omitted takes its default: gender "female", rate "+0%",
  pitch "+0Hz", volume "+0%", and output the path \<^verbatim>\<open>join(tmpdir(), "tts-<uuid>.mp3")\<close>
  built from the UUID drawn for this call; each key that is supplied is used as given,
  independently of the others. \<^verbatim>\<open>synthesize\<close> runs the process on these values, checks
  the existence of this output and resolves with it, and a call that omits keys does
  what the call with the defaults written out does. Two calls that draw different UUIDs
  get different default paths, for a \<^verbatim>\<open>join\<close> that keeps the file names "tts-<u>.mp3" of
  different UUIDs apart, as the normalising \<^verbatim>\<open>path.join\<close> does.
\<close>

theorem synthesize_option_defaults:
  "(let out = (case output opts of
                 None \<Rightarrow> join w (tmpdir w) (js ''tts-'' @ randomUUID w @ js ''.mp3'')
               | Some v \<Rightarrow> v);
        g = (case gender opts of None \<Rightarrow> js ''female'' | Some v \<Rightarrow> v);
        r = (case rate opts of None \<Rightarrow> js ''+0%'' | Some v \<Rightarrow> v);
        p = (case pitch opts of None \<Rightarrow> js ''+0Hz'' | Some v \<Rightarrow> v);
        v = (case volume opts of None \<Rightarrow> js ''+0%'' | Some v \<Rightarrow> v);
        args = [PYTHON_SCRIPT w, text, js ''-o'', out, js ''-g'', g, js ''-r'', r,
                js ''-p'', p, js ''-v'', v]
    in spawn_args w text opts = args
       \<and> output_of w opts = out
       \<and> synthesize w text opts
           = snd (foldl (on_event w out) ([], Pending) (spawn w (js ''python3'') args))
       \<and> synthesize w text opts
           = synthesize w text
               \<lparr>output = Some out, gender = Some g, rate = Some r, pitch = Some p,
                volume = Some v\<rparr>
       \<and> (spawn w (js ''python3'') args = map StderrData chunks @ Close code # rest
            \<longrightarrow> synthesize w text opts
                = (if code = Some 0 \<and> existsSync w out then Fulfilled out
                   else Rejected (Error (js ''TTS failed (code '' @ code_to_string code
                                         @ js ''): '' @ concat chunks)))))
   \<and> (output opts = None \<and> join w' = join w \<and> tmpdir w' = tmpdir w
       \<and> list_all is_uuid_char (randomUUID w) \<and> list_all is_uuid_char (randomUUID w')
       \<and> (\<forall>u u'. list_all is_uuid_char u \<and> list_all is_uuid_char u'
              \<and> join w (tmpdir w) (js ''tts-'' @ u @ js ''.mp3'')
                  = join w (tmpdir w) (js ''tts-'' @ u' @ js ''.mp3'')
              \<longrightarrow> u = u')
       \<and> randomUUID w' \<noteq> randomUUID w
       \<longrightarrow> output_of w' opts \<noteq> output_of w opts)"
proof (intro conjI)
  have args: "spawn_args w text opts =
      [PYTHON_SCRIPT w, text, js ''-o'', output_of w opts, js ''-g'', gender_of opts,
       js ''-r'', rate_of opts, js ''-p'', pitch_of opts, js ''-v'', volume_of opts]"
    by (simp add: spawn_args_def)
  have dfl:
    "output_of w opts = (case output opts of
                 None \<Rightarrow> join w (tmpdir w) (js ''tts-'' @ randomUUID w @ js ''.mp3'')
               | Some v \<Rightarrow> v)"
    "gender_of opts = (case gender opts of None \<Rightarrow> js ''female'' | Some v \<Rightarrow> v)"
    "rate_of opts = (case rate opts of None \<Rightarrow> js ''+0%'' | Some v \<Rightarrow> v)"
    "pitch_of opts = (case pitch opts of None \<Rightarrow> js ''+0Hz'' | Some v \<Rightarrow> v)"
    "volume_of opts = (case volume opts of None \<Rightarrow> js ''+0%'' | Some v \<Rightarrow> v)"
    by (simp_all only: output_of_def gender_of_def rate_of_def pitch_of_def volume_of_def
        dflt_case)
  have explicit:
    "spawn_args w text \<lparr>output = Some (output_of w opts), gender = Some (gender_of opts),
        rate = Some (rate_of opts), pitch = Some (pitch_of opts),
        volume = Some (volume_of opts)\<rparr> = spawn_args w text opts"
    "output_of w \<lparr>output = Some (output_of w opts), gender = Some (gender_of opts),
        rate = Some (rate_of opts), pitch = Some (pitch_of opts),
        volume = Some (volume_of opts)\<rparr> = output_of w opts"
    by (simp_all add: spawn_args_def output_of_def gender_of_def rate_of_def pitch_of_def
        volume_of_def)
  have same: "synthesize w text \<lparr>output = Some (output_of w opts),
        gender = Some (gender_of opts), rate = Some (rate_of opts),
        pitch = Some (pitch_of opts), volume = Some (volume_of opts)\<rparr>
      = synthesize w text opts"
    unfolding synthesize_def explicit ..
  have closed: "spawn w (js ''python3'') (spawn_args w text opts)
        = map StderrData chunks @ Close code # rest
      \<longrightarrow> synthesize w text opts
          = (if code = Some 0 \<and> existsSync w (output_of w opts)
             then Fulfilled (output_of w opts)
             else Rejected (Error (js ''TTS failed (code '' @ code_to_string code
                                   @ js ''): '' @ concat chunks)))"
    using synthesize_closed by blast
  have run: "synthesize w text opts
      = snd (foldl (on_event w (output_of w opts)) ([], Pending)
               (spawn w (js ''python3'') (spawn_args w text opts)))"
    by (simp add: synthesize_def)
  from args same closed run
  show "let out = (case output opts of
                 None \<Rightarrow> join w (tmpdir w) (js ''tts-'' @ randomUUID w @ js ''.mp3'')
               | Some v \<Rightarrow> v);
        g = (case gender opts of None \<Rightarrow> js ''female'' | Some v \<Rightarrow> v);
        r = (case rate opts of None \<Rightarrow> js ''+0%'' | Some v \<Rightarrow> v);
        p = (case pitch opts of None \<Rightarrow> js ''+0Hz'' | Some v \<Rightarrow> v);
        v = (case volume opts of None \<Rightarrow> js ''+0%'' | Some v \<Rightarrow> v);
        args = [PYTHON_SCRIPT w, text, js ''-o'', out, js ''-g'', g, js ''-r'', r,
                js ''-p'', p, js ''-v'', v]
    in spawn_args w text opts = args
       \<and> output_of w opts = out
       \<and> synthesize w text opts
           = snd (foldl (on_event w out) ([], Pending) (spawn w (js ''python3'') args))
       \<and> synthesize w text opts
           = synthesize w text
               \<lparr>output = Some out, gender = Some g, rate = Some r, pitch = Some p,
                volume = Some v\<rparr>
       \<and> (spawn w (js ''python3'') args = map StderrData chunks @ Close code # rest
            \<longrightarrow> synthesize w text opts
                = (if code = Some 0 \<and> existsSync w out then Fulfilled out
                   else Rejected (Error (js ''TTS failed (code '' @ code_to_string code
                                         @ js ''): '' @ concat chunks))))"
    unfolding Let_def dfl [symmetric] by simp
next
  show "output opts = None \<and> join w' = join w \<and> tmpdir w' = tmpdir w
       \<and> list_all is_uuid_char (randomUUID w) \<and> list_all is_uuid_char (randomUUID w')
       \<and> (\<forall>u u'. list_all is_uuid_char u \<and> list_all is_uuid_char u'
              \<and> join w (tmpdir w) (js ''tts-'' @ u @ js ''.mp3'')
                  = join w (tmpdir w) (js ''tts-'' @ u' @ js ''.mp3'')
              \<longrightarrow> u = u')
       \<and> randomUUID w' \<noteq> randomUUID w
       \<longrightarrow> output_of w' opts \<noteq> output_of w opts"
    by (auto simp add: output_of_def)
qed

text \<open>
  A call that supplies only the rate and resolves with the default path under the
  normalising join; a call that supplies only the gender, whose rejection shows the
  command line with the four other defaults; and two calls without an output that draw
  different UUIDs.
\<close>

theorem synthesize_option_defaults_witness:
  "synthesize echo_world (js ''hi'') (no_options\<lparr>rate := Some (js ''+10%'')\<rparr>)
     = Fulfilled (js ''/tmp/tts-0b5c1f0e-0000-4000-8000-000000000001.mp3'')
   \<and> synthesize echo_world (js ''hi'') (no_options\<lparr>gender := Some (js ''male'')\<rparr>)
     = Rejected (Error (js ''TTS failed (code 1): python3 /opt/smart-tts/tts.py hi -o /tmp/tts-0b5c1f0e-0000-4000-8000-000000000001.mp3 -g male -r +0% -p +0Hz -v +0%''))
   \<and> output_of (echo_world\<lparr>randomUUID := js ''0b5c1f0e-0000-4000-8000-000000000002''\<rparr>)
         no_options
       \<noteq> output_of echo_world no_options"
proof -
  let ?W2 = "echo_world\<lparr>randomUUID := js ''0b5c1f0e-0000-4000-8000-000000000002''\<rparr>"
  have u1: "list_all is_uuid_char (js ''0b5c1f0e-0000-4000-8000-000000000001'')"
    and u2: "list_all is_uuid_char (js ''0b5c1f0e-0000-4000-8000-000000000002'')"
    by (simp_all add: js_def is_uuid_char_def)
  have p1: "posix_join (js ''/tmp'')
        (js ''tts-'' @ js ''0b5c1f0e-0000-4000-8000-000000000001'' @ js ''.mp3'')
      = js ''/tmp/tts-0b5c1f0e-0000-4000-8000-000000000001.mp3''"
    using posix_join_tmp [OF u1] by (simp add: js_def)
  have out: "output_of echo_world (no_options\<lparr>rate := Some (js ''+10%'')\<rparr>)
        = js ''/tmp/tts-0b5c1f0e-0000-4000-8000-000000000001.mp3''"
      "output_of echo_world (no_options\<lparr>gender := Some (js ''male'')\<rparr>)
        = js ''/tmp/tts-0b5c1f0e-0000-4000-8000-000000000001.mp3''"
    by (simp_all add: output_of_def echo_world_def no_options_def p1)
  have ev1: "spawn echo_world (js ''python3'')
        (spawn_args echo_world (js ''hi'') (no_options\<lparr>rate := Some (js ''+10%'')\<rparr>))
      = map StderrData [] @ Close (Some 0) # []"
    by (simp add: spawn_args_def gender_of_def echo_world_def no_options_def js_def)
  have ev2: "spawn echo_world (js ''python3'')
        (spawn_args echo_world (js ''hi'') (no_options\<lparr>gender := Some (js ''male'')\<rparr>))
      = map StderrData [js ''python3 /opt/smart-tts/tts.py hi -o /tmp/tts-0b5c1f0e-0000-4000-8000-000000000001.mp3 -g male -r +0% -p +0Hz -v +0%'']
        @ Close (Some 1) # []"
    using out(2)
    by (simp add: spawn_args_def gender_of_def rate_of_def pitch_of_def volume_of_def)
       (simp add: echo_world_def no_options_def js_def)
  have ex: "existsSync echo_world (js ''/tmp/tts-0b5c1f0e-0000-4000-8000-000000000001.mp3'')"
    by (simp add: echo_world_def)
  have c1: "synthesize echo_world (js ''hi'') (no_options\<lparr>rate := Some (js ''+10%'')\<rparr>)
     = Fulfilled (js ''/tmp/tts-0b5c1f0e-0000-4000-8000-000000000001.mp3'')"
    using synthesize_option_defaults [of echo_world
        "no_options\<lparr>rate := Some (js ''+10%'')\<rparr>" "js ''hi''" "[]" "Some 0" "[]"]
      ev1 ex
    unfolding Let_def by (metis out(1))
  have "synthesize echo_world (js ''hi'') (no_options\<lparr>gender := Some (js ''male'')\<rparr>)
     = (if Some 1 = Some (0::int)
           \<and> existsSync echo_world (js ''/tmp/tts-0b5c1f0e-0000-4000-8000-000000000001.mp3'')
        then Fulfilled (js ''/tmp/tts-0b5c1f0e-0000-4000-8000-000000000001.mp3'')
        else Rejected (Error (js ''TTS failed (code '' @ code_to_string (Some 1) @ js ''): ''
          @ concat [js ''python3 /opt/smart-tts/tts.py hi -o /tmp/tts-0b5c1f0e-0000-4000-8000-000000000001.mp3 -g male -r +0% -p +0Hz -v +0%''])))"
    using synthesize_option_defaults [of echo_world
        "no_options\<lparr>gender := Some (js ''male'')\<rparr>" "js ''hi''"
        "[js ''python3 /opt/smart-tts/tts.py hi -o /tmp/tts-0b5c1f0e-0000-4000-8000-000000000001.mp3 -g male -r +0% -p +0Hz -v +0%'']"
        "Some 1" "[]"]
      ev2
    unfolding Let_def by (metis out(2))
  then have c2: "synthesize echo_world (js ''hi'') (no_options\<lparr>gender := Some (js ''male'')\<rparr>)
     = Rejected (Error (js ''TTS failed (code 1): python3 /opt/smart-tts/tts.py hi -o /tmp/tts-0b5c1f0e-0000-4000-8000-000000000001.mp3 -g male -r +0% -p +0Hz -v +0%''))"
    by (simp add: number_to_string_def digits_one_digit js_def)
  have sep: "\<forall>u u'. list_all is_uuid_char u \<and> list_all is_uuid_char u'
      \<and> join echo_world (tmpdir echo_world) (js ''tts-'' @ u @ js ''.mp3'')
          = join echo_world (tmpdir echo_world) (js ''tts-'' @ u' @ js ''.mp3'') \<longrightarrow> u = u'"
    by (auto simp add: echo_world_def posix_join_tmp)
  have c3: "output_of ?W2 no_options \<noteq> output_of echo_world no_options"
  proof (rule mp [OF conjunct2 [OF synthesize_option_defaults [of echo_world no_options
          "js ''hi''" "[]" "Some 0" "[]" ?W2]]], intro conjI)
    show "output no_options = None" by (simp add: no_options_def)
    show "join ?W2 = join echo_world" and "tmpdir ?W2 = tmpdir echo_world" by simp_all
    show "list_all is_uuid_char (randomUUID echo_world)"
      using u1 by (simp add: echo_world_def)
    show "list_all is_uuid_char (randomUUID ?W2)" using u2 by simp
    show "randomUUID ?W2 \<noteq> randomUUID echo_world" by (simp add: echo_world_def js_def)
  qed (rule sep)
  from c1 c2 c3 show ?thesis by (intro conjI)
qed

section \<open>Properties of the command line\<close>

lemma startsWith_dash: "startsWith a (js ''-'') = (\<exists>r. a = 0x2D # r)"
  by (cases a) (auto simp add: startsWith_def js_def)


text \<open>
  C7. With no argument the program prints the two lines of the usage help, calls
  \<^verbatim>\<open>synthesize\<close> not at all, writes nothing to standard error and ends with exit code
  zero.
\<close>

theorem cli_no_arguments:
  "cli w [] = \<lparr>stdout = usage, stderr = [], calls = [], exit_code = Some 0\<rparr>"
  by (simp add: cli_def includes_def)



text \<open>
  C10. With "--test", a failure of the synthesis prints "Error: " and the message, and
  the exit code stays zero; in text mode a failure prints the message and the program
  exits with status 1.
\<close>

theorem cli_failure_exit_codes:
  "(includes args (js ''--test'') \<and> synthesize w test_sample no_options = Rejected e
      \<longrightarrow> stderr (cli w args) = [js ''Error: '' @ message e]
          \<and> exit_code (cli w args) = Some 0)
   \<and> (\<not> includes args (js ''--test'') \<and> args \<noteq> []
       \<and> synthesize w (cli_text args) (no_options\<lparr>gender := Some (cli_gender args)\<rparr>)
           = Rejected e
      \<longrightarrow> stderr (cli w args) = [message e] \<and> exit_code (cli w args) = Some 1)"
  by (simp add: cli_def Let_def)

text \<open>A backend that exits 1 after writing "voice not found", in both modes.\<close>

theorem cli_failure_exit_codes_witness:
  "stderr (cli (stub_world [StderrData (js ''voice not found''), Close (Some 1)] [])
             [js ''--test''])
     = [js ''Error: TTS failed (code 1): voice not found'']
   \<and> exit_code (cli (stub_world [StderrData (js ''voice not found''), Close (Some 1)] [])
                  [js ''--test'']) = Some 0
   \<and> stderr (cli (stub_world [StderrData (js ''voice not found''), Close (Some 1)] [])
               [js ''hello''])
     = [js ''TTS failed (code 1): voice not found'']
   \<and> exit_code (cli (stub_world [StderrData (js ''voice not found''), Close (Some 1)] [])
                  [js ''hello'']) = Some 1"
  using cli_failure_exit_codes [of "[js ''--test'']"
      "stub_world [StderrData (js ''voice not found''), Close (Some 1)] []"
      "Error (js ''TTS failed (code 1): voice not found'')"]
    cli_failure_exit_codes [of "[js ''hello'']"
      "stub_world [StderrData (js ''voice not found''), Close (Some 1)] []"
      "Error (js ''TTS failed (code 1): voice not found'')"]
  by (simp add: includes_def synthesize_def stub_world_def number_to_string_def
      digits_one_digit js_def)

end
